theory Spec2Isabelle
  imports Main
begin

section \<open>serve.py: a static file server that adds two isolation headers\<close>

text \<open>
  The program is one Python file. It subclasses the request handler of Python's
  \<^verbatim>\<open>http.server\<close>, overriding one method, and then runs a short start-up script.
  Python strings and byte strings are modelled as \<^typ>\<open>string\<close>; a character outside
  ASCII is written as the bytes of its UTF-8 encoding, as the source file stores it.
\<close>

subsection \<open>Text helpers\<close>

definition CRLF :: string where
  "CRLF = [CHR 0x0D, CHR 0x0A]"

text \<open>Python's \<^verbatim>\<open>str(n)\<close> for an integer: decimal digits, with a sign when negative.\<close>

definition digit_char :: "nat \<Rightarrow> char" where
  "digit_char d = ''0123456789'' ! d"

fun str_nat :: "nat \<Rightarrow> string" where
  "str_nat n = (if n < 10 then [digit_char n] else str_nat (n div 10) @ [digit_char (n mod 10)])"

definition str_int :: "int \<Rightarrow> string" where
  "str_int i = (if i < 0 then CHR ''-'' # str_nat (nat (- i)) else str_nat (nat i))"

text \<open>Python's \<^verbatim>\<open>needle in haystack\<close> on strings: the needle occurs as a contiguous run.\<close>

fun starts_with :: "string \<Rightarrow> string \<Rightarrow> bool" where
  "starts_with [] ys = True"
| "starts_with (x # xs) [] = False"
| "starts_with (x # xs) (y # ys) = (x = y \<and> starts_with xs ys)"

fun str_contains :: "string \<Rightarrow> string \<Rightarrow> bool" where
  "str_contains needle [] = (needle = [])"
| "str_contains needle (y # ys) = (starts_with needle (y # ys) \<or> str_contains needle ys)"

text \<open>Python's \<^verbatim>\<open>str.lower\<close>, on the ASCII letters that header names are made of.\<close>

definition lower_char :: "char \<Rightarrow> char" where
  "lower_char c =
     (let n = (of_char c :: nat) in if 65 \<le> n \<and> n \<le> 90 then char_of (n + 32) else c)"

definition lower :: "string \<Rightarrow> string" where
  "lower s = map lower_char s"

subsection \<open>The request handler\<close>

text \<open>
  \<^verbatim>\<open>CORSRequestHandler\<close> inherits from \<^verbatim>\<open>http.server.SimpleHTTPRequestHandler\<close>. The
  fields below are the ones of a handler object that the header methods read and write.
  The inherited methods \<^verbatim>\<open>send_response_only\<close>, \<^verbatim>\<open>send_header\<close>, \<^verbatim>\<open>end_headers\<close>
  and \<^verbatim>\<open>flush_headers\<close> belong to the Python standard library, not to this
  repository; they are modelled as the library defines them:
  \<^verbatim>\<open>
    def send_header(self, keyword, value):
        if self.request_version != 'HTTP/0.9':
            if not hasattr(self, '_headers_buffer'):
                self._headers_buffer = []
            self._headers_buffer.append(
                ("%s: %s\r\n" % (keyword, value)).encode('latin-1', 'strict'))
        if keyword.lower() == 'connection':
            if value.lower() == 'close':
                self.close_connection = True
            elif value.lower() == 'keep-alive':
                self.close_connection = False

    def end_headers(self):
        if self.request_version != 'HTTP/0.9':
            self._headers_buffer.append(b"\r\n")
            self.flush_headers()

    def flush_headers(self):
        if hasattr(self, '_headers_buffer'):
            self.wfile.write(b"".join(self._headers_buffer))
            self._headers_buffer = []
  \<close>
  A handler without the attribute \<^verbatim>\<open>_headers_buffer\<close> is a handler whose buffer is
  empty: \<^verbatim>\<open>send_header\<close> creates the attribute before the first use, and flushing an
  absent buffer writes nothing.
\<close>

record handler =
  request_version :: string
  headers_buffer :: "string list"
  wfile :: string
  close_connection :: bool

definition header_line :: "string \<Rightarrow> string \<Rightarrow> string" where
  "header_line keyword val = keyword @ '': '' @ val @ CRLF"

definition send_header :: "string \<Rightarrow> string \<Rightarrow> handler \<Rightarrow> handler" where
  "send_header keyword val h =
     (let h1 = (if request_version h \<noteq> ''HTTP/0.9''
                then h\<lparr>headers_buffer := headers_buffer h @ [header_line keyword val]\<rparr>
                else h)
      in if lower keyword = ''connection''
         then (if lower val = ''close'' then h1\<lparr>close_connection := True\<rparr>
               else if lower val = ''keep-alive'' then h1\<lparr>close_connection := False\<rparr>
               else h1)
         else h1)"

definition flush_headers :: "handler \<Rightarrow> handler" where
  "flush_headers h = h\<lparr>wfile := wfile h @ concat (headers_buffer h), headers_buffer := []\<rparr>"

definition super_end_headers :: "handler \<Rightarrow> handler" where
  "super_end_headers h =
     (if request_version h \<noteq> ''HTTP/0.9''
      then flush_headers (h\<lparr>headers_buffer := headers_buffer h @ [CRLF]\<rparr>)
      else h)"

text \<open>
  The override of the repository (serve.py, class \<^verbatim>\<open>CORSRequestHandler\<close>):
  \<^verbatim>\<open>
    def end_headers(self):
        self.send_header('Cross-Origin-Embedder-Policy', 'require-corp')
        self.send_header('Cross-Origin-Opener-Policy', 'same-origin')
        super().end_headers()
  \<close>
\<close>

definition end_headers :: "handler \<Rightarrow> handler" where
  "end_headers h =
     super_end_headers
       (send_header ''Cross-Origin-Opener-Policy'' ''same-origin''
         (send_header ''Cross-Origin-Embedder-Policy'' ''require-corp'' h))"

text \<open>The two header lines as they appear on the wire.\<close>

definition isolation_lines :: string where
  "isolation_lines =
     ''Cross-Origin-Embedder-Policy: require-corp'' @ CRLF @
     ''Cross-Origin-Opener-Policy: same-origin'' @ CRLF"

text \<open>
  The status line is buffered by the inherited \<^verbatim>\<open>send_response_only\<close>, again as the
  library defines it (the handler class keeps the library's \<^verbatim>\<open>protocol_version\<close>,
  \<^verbatim>\<open>"HTTP/1.0"\<close>):
  \<^verbatim>\<open>
    def send_response_only(self, code, message=None):
        if self.request_version != 'HTTP/0.9':
            ...
            self._headers_buffer.append(("%s %d %s\r\n" %
                    (self.protocol_version, code, message)).encode('latin-1', 'strict'))
  \<close>
\<close>

definition status_line :: "nat \<Rightarrow> string \<Rightarrow> string" where
  "status_line code message = ''HTTP/1.0 '' @ str_nat code @ '' '' @ message @ CRLF"

definition send_response_only :: "nat \<Rightarrow> string \<Rightarrow> handler \<Rightarrow> handler" where
  "send_response_only code message h =
     (if request_version h \<noteq> ''HTTP/0.9''
      then h\<lparr>headers_buffer := headers_buffer h @ [status_line code message]\<rparr>
      else h)"

subsection \<open>The file-serving capability underneath\<close>

text \<open>
  What a request is answered with (which status, which standard headers, which body) is
  decided by \<^verbatim>\<open>SimpleHTTPRequestHandler\<close>, which serve.py inherits and does not
  contain. Its decisions are taken from the specification. The parts the specification
  leaves to "the underlying file-serving capability" are parameters: how a request path
  resolves to a file under the root directory, the standard headers and reason phrase
  that go with a status, and the page sent with an error.
\<close>

record fileserver =
  lookup :: "string \<Rightarrow> string \<Rightarrow> string option"
  standard_headers :: "nat \<Rightarrow> string \<Rightarrow> (string \<times> string) list"
  reason :: "nat \<Rightarrow> string"
  error_page :: "nat \<Rightarrow> string"

text \<open>
  Modelled from the spec: the network interface is "HTTP/1.x" and the input is "an HTTP
  request with a path". The request parser of the standard library is not part of the
  repository.
\<close>

datatype http_version = HTTP_1_0 | HTTP_1_1

record request =
  path :: string
  version :: http_version

fun version_string :: "http_version \<Rightarrow> string" where
  "version_string HTTP_1_0 = ''HTTP/1.0''"
| "version_string HTTP_1_1 = ''HTTP/1.1''"

text \<open>
  Modelled from the spec: a response is a status line, the standard file-serving
  headers, the end of the header block, and the body ("attach two additional response
  headers to every response before it is sent"). The standard library's \<^verbatim>\<open>send_head\<close>
  and \<^verbatim>\<open>send_error\<close>, which do this, are not part of the repository. The header block
  is ended by calling \<^verbatim>\<open>self.end_headers()\<close>: the method is looked up on the object,
  so it is a parameter here, and the subclass passes its override.
\<close>

definition respond ::
  "(handler \<Rightarrow> handler) \<Rightarrow> fileserver \<Rightarrow> nat \<Rightarrow> string \<Rightarrow> string \<Rightarrow> handler \<Rightarrow> handler" where
  "respond self_end_headers fsrv code p body h =
     (let h1 = send_response_only code (reason fsrv code) h;
          h2 = fold (\<lambda>kv. send_header (fst kv) (snd kv)) (standard_headers fsrv code p) h1;
          h3 = self_end_headers h2
      in h3\<lparr>wfile := wfile h3 @ body\<rparr>)"

text \<open>
  Modelled from the spec: "output: the corresponding file's contents under the
  configured root directory, or a standard not-found/error response if the path does not
  resolve to a readable file", with "standard status codes (200, 404, etc.)". The
  standard library's \<^verbatim>\<open>do_GET\<close> is not part of the repository.
\<close>

definition do_GET ::
  "(handler \<Rightarrow> handler) \<Rightarrow> fileserver \<Rightarrow> string \<Rightarrow> string \<Rightarrow> handler \<Rightarrow> handler" where
  "do_GET self_end_headers fsrv root p h =
     (case lookup fsrv root p of
        Some bytes \<Rightarrow> respond self_end_headers fsrv 200 p bytes h
      | None \<Rightarrow> respond self_end_headers fsrv 404 p (error_page fsrv 404) h)"

text \<open>
  Modelled from the spec: one request is handled to completion by a fresh handler
  object; what it wrote is the response. The standard library's \<^verbatim>\<open>handle_one_request\<close>
  is not part of the repository. The handler class is \<^verbatim>\<open>CORSRequestHandler\<close>
  (serve.py passes it to the server), so the method that ends the header block is the
  override \<^const>\<open>end_headers\<close>.
\<close>

definition new_handler :: "request \<Rightarrow> handler" where
  "new_handler r =
     \<lparr>request_version = version_string (version r), headers_buffer = [], wfile = [],
      close_connection = True\<rparr>"

definition handle_request :: "fileserver \<Rightarrow> string \<Rightarrow> request \<Rightarrow> string" where
  "handle_request fsrv root r = wfile (do_GET end_headers fsrv root (path r) (new_handler r))"

text \<open>The header block of a response with the given status, as the override ends it.\<close>

definition header_block :: "fileserver \<Rightarrow> nat \<Rightarrow> string \<Rightarrow> string" where
  "header_block fsrv code p =
     status_line code (reason fsrv code) @
     concat (map (\<lambda>kv. header_line (fst kv) (snd kv)) (standard_headers fsrv code p)) @
     isolation_lines @ CRLF"

subsection \<open>The start-up script\<close>

text \<open>
  Exceptions, by what the handlers of the script can tell apart: \<^verbatim>\<open>KeyboardInterrupt\<close>;
  an instance of \<^verbatim>\<open>OSError\<close> or of a subclass, with its \<^verbatim>\<open>str(e)\<close>; any other
  exception, with its name. \<^verbatim>\<open>sys.exit(n)\<close> raises \<^verbatim>\<open>SystemExit(n)\<close> where no
  handler of the script is left to catch it, so the interpreter exits with status
  \<^verbatim>\<open>n\<close>: it is the completion \<open>Exits n\<close>. A call that never returns is \<open>Forever\<close>.
\<close>

datatype exn = KeyboardInterrupt | OSError string | OtherException string

datatype completion = Normal | Raised exn | Exits int | Forever

datatype sock = NoSocket | Listening string int | Closed

datatype event =
    EvChdir string
  | EvBind string int
  | EvPrint string
  | EvOpenBrowser string
  | EvServeForever
  | EvResponse string
  | EvServerClose

text \<open>
  What the script can observe and change: the working directory, the listening socket,
  and the effects so far, in order.
\<close>

record world =
  cwd :: string
  listener :: sock
  trace :: "event list"

text \<open>
  What the script does not decide: its own path (\<^verbatim>\<open>__file__\<close>), how the platform makes
  a path absolute, the command line and the environment variables (it reads neither),
  which of its calls fail and how, which requests arrive, how serving ends, and the
  file-serving capability.
\<close>

record env =
  script_file :: string
  abspath :: "string \<Rightarrow> string"
  start_cwd :: string
  argv :: "string list"
  environ :: "string \<Rightarrow> string option"
  chdir_raises :: "string \<Rightarrow> exn option"
  bind_raises :: "exn option"
  browser_raises :: "exn option"
  requests :: "request list"
  serve_ends :: completion
  files :: fileserver

definition PORT :: int where
  "PORT = 8080"

text \<open>
  \<^verbatim>\<open>os.path.dirname\<close> on a POSIX path, as the standard library defines it:
  \<^verbatim>\<open>
    i = p.rfind('/') + 1
    head = p[:i]
    if head and head != '/'*len(head):
        head = head.rstrip('/')
    return head
  \<close>
\<close>

definition rstrip_slash :: "string \<Rightarrow> string" where
  "rstrip_slash s = rev (dropWhile (\<lambda>c. c = CHR ''/'') (rev s))"

definition dirname :: "string \<Rightarrow> string" where
  "dirname p =
     (let head = rev (dropWhile (\<lambda>c. c \<noteq> CHR ''/'') (rev p)) in
      if head \<noteq> [] \<and> head \<noteq> replicate (length head) (CHR ''/'')
      then rstrip_slash head else head)"

text \<open>
  The calls the script makes. \<^verbatim>\<open>print\<close> appends a line to the standard output;
  writing to the standard output and reading the working directory are taken to succeed.
  The calls that can fail are the change of directory, the construction of the server,
  the browser launch and the serving loop.
\<close>

definition py_print :: "string \<Rightarrow> world \<Rightarrow> world" where
  "py_print s w = w\<lparr>trace := trace w @ [EvPrint s]\<rparr>"

definition os_chdir :: "env \<Rightarrow> string \<Rightarrow> world \<Rightarrow> completion \<times> world" where
  "os_chdir E d w =
     (case chdir_raises E d of
        Some e \<Rightarrow> (Raised e, w)
      | None \<Rightarrow> (Normal, w\<lparr>cwd := d, trace := trace w @ [EvChdir d]\<rparr>))"

text \<open>
  \<^verbatim>\<open>socketserver.TCPServer((host, port), handler_class)\<close>: the constructor binds and
  listens; when that fails it closes its socket and raises.
\<close>

definition TCPServer :: "env \<Rightarrow> string \<Rightarrow> int \<Rightarrow> world \<Rightarrow> completion \<times> world" where
  "TCPServer E host port w =
     (case bind_raises E of
        Some e \<Rightarrow> (Raised e, w)
      | None \<Rightarrow> (Normal, w\<lparr>listener := Listening host port,
                            trace := trace w @ [EvBind host port]\<rparr>))"

definition server_close :: "world \<Rightarrow> world" where
  "server_close w = w\<lparr>listener := Closed, trace := trace w @ [EvServerClose]\<rparr>"

definition webbrowser_open :: "env \<Rightarrow> string \<Rightarrow> world \<Rightarrow> completion \<times> world" where
  "webbrowser_open E url w =
     (case browser_raises E of Some e \<Rightarrow> Raised e | None \<Rightarrow> Normal,
      w\<lparr>trace := trace w @ [EvOpenBrowser url]\<rparr>)"

text \<open>
  \<^verbatim>\<open>httpd.serve_forever()\<close>: requests are answered one at a time by the handler class,
  from the working directory, until the loop is interrupted (if ever).
\<close>

definition serve_forever :: "env \<Rightarrow> world \<Rightarrow> completion \<times> world" where
  "serve_forever E w =
     (serve_ends E,
      w\<lparr>trace := trace w @ EvServeForever #
           map (\<lambda>r. EvResponse (handle_request (files E) (cwd w) r)) (requests E)\<rparr>)"

text \<open>\<^verbatim>\<open>try: ... except: pass\<close> catches every exception and goes on.\<close>

fun try_except_pass :: "completion \<times> world \<Rightarrow> completion \<times> world" where
  "try_except_pass (Raised e, w) = (Normal, w)"
| "try_except_pass (c, w) = (c, w)"

definition sys_exit :: "int \<Rightarrow> world \<Rightarrow> completion \<times> world" where
  "sys_exit n w = (Exits n, w)"

text \<open>The texts printed (serve.py, the \<^verbatim>\<open>print\<close> calls), with \<^verbatim>\<open>{PORT}\<close> filled in.\<close>

definition base_url :: string where
  "base_url = ''http://localhost:'' @ str_int PORT"

definition starting_line :: string where
  "starting_line = [CHR 0xF0, CHR 0x9F, CHR 0x8C, CHR 0x90] @ '' Server starting at '' @ base_url"

definition serving_line :: "string \<Rightarrow> string" where
  "serving_line d = [CHR 0xF0, CHR 0x9F, CHR 0x93, CHR 0x81] @ '' Serving files from: '' @ d"

definition open_line :: string where
  "open_line =
     [CHR 0xF0, CHR 0x9F, CHR 0x8E, CHR 0xAE] @ '' Open '' @ base_url @
     '' in your browser to play!''"

definition press_line :: string where
  "press_line =
     [CHR 0xE2, CHR 0x8F, CHR 0xB9, CHR 0xEF, CHR 0xB8, CHR 0x8F] @
     ''  Press Ctrl+C to stop the server''"

definition stopped_line :: string where
  "stopped_line = [CHR 0x0A, CHR 0xF0, CHR 0x9F, CHR 0x9B, CHR 0x91] @ '' Server stopped.''"

definition in_use_line :: string where
  "in_use_line =
     [CHR 0xE2, CHR 0x9D, CHR 0x8C] @ '' Port '' @ str_int PORT @
     '' is already in use. Try a different port or stop the existing server.''"

text \<open>
  The body of the \<^verbatim>\<open>with\<close> statement (serve.py, lines 25 to 36): four status lines,
  the browser launch inside its own \<^verbatim>\<open>try\<close>, then the serving loop.
\<close>

definition with_body :: "env \<Rightarrow> world \<Rightarrow> completion \<times> world" where
  "with_body E w0 =
     (let w1 = py_print starting_line w0;
          w2 = py_print (serving_line (cwd w1)) w1;
          w3 = py_print open_line w2;
          w4 = py_print press_line w3
      in case try_except_pass (webbrowser_open E base_url w4) of
           (Normal, w5) \<Rightarrow> serve_forever E w5
         | (c, w5) \<Rightarrow> (c, w5))"

text \<open>
  \<^verbatim>\<open>with socketserver.TCPServer(("", PORT), CORSRequestHandler) as httpd:\<close> the server
  is closed when the body is left, normally or by an exception.
\<close>

definition with_server :: "env \<Rightarrow> world \<Rightarrow> completion \<times> world" where
  "with_server E w =
     (case TCPServer E [] PORT w of
        (Normal, w1) \<Rightarrow>
          (case with_body E w1 of
             (Forever, w2) \<Rightarrow> (Forever, w2)
           | (c, w2) \<Rightarrow> (c, server_close w2))
      | (c, w1) \<Rightarrow> (c, w1))"

text \<open>The two \<^verbatim>\<open>except\<close> clauses of the outer \<^verbatim>\<open>try\<close> (serve.py, lines 37 to 45).\<close>

fun handlers :: "completion \<times> world \<Rightarrow> completion \<times> world" where
  "handlers (Raised KeyboardInterrupt, w) = sys_exit 0 (py_print stopped_line w)"
| "handlers (Raised (OSError s), w) =
     (if str_contains ''Address already in use'' s
      then sys_exit 1 (py_print in_use_line w)
      else (Raised (OSError s), w))"
| "handlers (c, w) = (c, w)"

text \<open>The whole script: the change of directory is outside the \<^verbatim>\<open>try\<close>.\<close>

definition main :: "env \<Rightarrow> world \<Rightarrow> completion \<times> world" where
  "main E w =
     (case os_chdir E (dirname (abspath E (script_file E))) w of
        (Normal, w1) \<Rightarrow> handlers (with_server E w1)
      | (c, w1) \<Rightarrow> (c, w1))"

text \<open>
  How the process ends: with an exit status, with an uncaught exception (the interpreter
  prints a traceback), or not at all.
\<close>

datatype outcome = Exited int | Traceback exn | Running

fun outcome_of :: "completion \<Rightarrow> outcome" where
  "outcome_of Normal = Exited 0"
| "outcome_of (Exits n) = Exited n"
| "outcome_of (Raised e) = Traceback e"
| "outcome_of Forever = Running"

definition initial :: "env \<Rightarrow> world" where
  "initial E = \<lparr>cwd = start_cwd E, listener = NoSocket, trace = []\<rparr>"

definition run :: "env \<Rightarrow> outcome \<times> world" where
  "run E = (case main E (initial E) of (c, w) \<Rightarrow> (outcome_of c, w))"

text \<open>Ordering of effects: no \<open>b\<close> happens unless an \<open>a\<close> happened earlier.\<close>

fun only_after :: "(event \<Rightarrow> bool) \<Rightarrow> (event \<Rightarrow> bool) \<Rightarrow> event list \<Rightarrow> bool" where
  "only_after a b [] = True"
| "only_after a b (x # xs) = (if a x then True else \<not> b x \<and> only_after a b xs)"

fun is_chdir :: "event \<Rightarrow> bool" where
  "is_chdir (EvChdir d) = True"
| "is_chdir e = False"

fun is_bind :: "event \<Rightarrow> bool" where
  "is_bind (EvBind host port) = True"
| "is_bind e = False"

fun is_browser :: "event \<Rightarrow> bool" where
  "is_browser (EvOpenBrowser url) = True"
| "is_browser e = False"

fun is_serving :: "event \<Rightarrow> bool" where
  "is_serving EvServeForever = True"
| "is_serving (EvResponse bytes) = True"
| "is_serving e = False"

text \<open>The responses among the effects, in order.\<close>

fun responses :: "event list \<Rightarrow> string list" where
  "responses [] = []"
| "responses (EvResponse bytes # t) = bytes # responses t"
| "responses (e # t) = responses t"

text \<open>
  An exception that is neither \<^verbatim>\<open>KeyboardInterrupt\<close> nor an \<^verbatim>\<open>OSError\<close> whose text
  says that the address is in use.
\<close>

fun other_exception :: "exn \<Rightarrow> bool" where
  "other_exception KeyboardInterrupt = False"
| "other_exception (OSError s) = (\<not> str_contains ''Address already in use'' s)"
| "other_exception (OtherException name) = True"

subsection \<open>Example inputs\<close>

definition example_files :: fileserver where
  "example_files =
     \<lparr>lookup = (\<lambda>root p. if root = ''/srv/web'' \<and> p = ''/index.html''
                          then Some ''<h1>hi</h1>'' else None),
      standard_headers = (\<lambda>code p. [(''Server'', ''SimpleHTTP/0.6'')]),
      reason = (\<lambda>code. if code = 200 then ''OK'' else ''File not found''),
      error_page = (\<lambda>code. ''not found'')\<rparr>"

definition example_env :: env where
  "example_env =
     \<lparr>script_file = ''serve.py'',
      abspath = (\<lambda>p. ''/srv/web/'' @ p),
      start_cwd = ''/home/dev'',
      argv = [''serve.py''],
      environ = (\<lambda>k. None),
      chdir_raises = (\<lambda>d. None),
      bind_raises = None,
      browser_raises = None,
      requests = [\<lparr>path = ''/index.html'', version = HTTP_1_1\<rparr>],
      serve_ends = Forever,
      files = example_files\<rparr>"

definition port_taken_env :: env where
  "port_taken_env =
     example_env\<lparr>bind_raises := Some (OSError ''[Errno 98] Address already in use'')\<rparr>"

definition interrupted_env :: env where
  "interrupted_env = example_env\<lparr>serve_ends := Raised KeyboardInterrupt\<rparr>"

definition no_browser_env :: env where
  "no_browser_env = example_env\<lparr>browser_raises := Some (OtherException ''webbrowser.Error'')\<rparr>"

definition denied_env :: env where
  "denied_env = example_env\<lparr>bind_raises := Some (OSError ''[Errno 13] Permission denied'')\<rparr>"

section \<open>Properties\<close>

subsection \<open>Helper lemmas\<close>

declare str_nat.simps [simp del]

lemma str_200: "str_nat 200 = ''200''"
  by (simp add: str_nat.simps digit_char_def)

lemma str_404: "str_nat 404 = ''404''"
  by (simp add: str_nat.simps digit_char_def)

lemma str_port: "str_int PORT = ''8080''"
  by (simp add: str_int_def PORT_def str_nat.simps digit_char_def)

lemma lower_length: "length (lower s) = length s"
  by (simp add: lower_def)

lemma not_connection: "length k \<noteq> 10 \<Longrightarrow> lower k \<noteq> ''connection''"
  using lower_length [of k] by auto

lemma send_header_plain:
  "length k \<noteq> 10 \<Longrightarrow>
   send_header k v h =
     (if request_version h \<noteq> ''HTTP/0.9''
      then h\<lparr>headers_buffer := headers_buffer h @ [header_line k v]\<rparr> else h)"
  by (simp add: send_header_def not_connection Let_def)

lemma end_headers_unfold:
  "end_headers h =
     (if request_version h = ''HTTP/0.9'' then h
      else h\<lparr>wfile := wfile h @ concat (headers_buffer h) @ isolation_lines @ CRLF,
             headers_buffer := []\<rparr>)"
  by (simp add: end_headers_def send_header_plain super_end_headers_def flush_headers_def
      isolation_lines_def header_line_def)

lemma send_header_version [simp]: "request_version (send_header k v h) = request_version h"
  by (simp add: send_header_def Let_def)

lemma send_header_wfile [simp]: "wfile (send_header k v h) = wfile h"
  by (simp add: send_header_def Let_def)

lemma send_header_buffer:
  "headers_buffer (send_header k v h) =
     (if request_version h \<noteq> ''HTTP/0.9'' then headers_buffer h @ [header_line k v]
      else headers_buffer h)"
  by (simp add: send_header_def Let_def)

lemma fold_send_header_version [simp]:
  "request_version (fold (\<lambda>kv. send_header (fst kv) (snd kv)) hs h) = request_version h"
  by (induction hs arbitrary: h) simp_all

lemma fold_send_header_wfile [simp]:
  "wfile (fold (\<lambda>kv. send_header (fst kv) (snd kv)) hs h) = wfile h"
  by (induction hs arbitrary: h) simp_all

lemma fold_send_header_buffer:
  "request_version h \<noteq> ''HTTP/0.9'' \<Longrightarrow>
   headers_buffer (fold (\<lambda>kv. send_header (fst kv) (snd kv)) hs h) =
     headers_buffer h @ map (\<lambda>kv. header_line (fst kv) (snd kv)) hs"
  by (induction hs arbitrary: h) (simp_all add: send_header_buffer)

lemma version_string_modern [simp]: "version_string v \<noteq> ''HTTP/0.9''"
  by (cases v) simp_all

lemma respond_new_handler:
  "wfile (respond end_headers fsrv code p body (new_handler r)) =
     header_block fsrv code p @ body"
  by (simp add: respond_def Let_def end_headers_unfold send_response_only_def new_handler_def
      fold_send_header_buffer header_block_def)

lemmas script_defs =
  run_def main_def initial_def os_chdir_def with_server_def TCPServer_def with_body_def
  webbrowser_open_def serve_forever_def server_close_def py_print_def sys_exit_def Let_def

lemmas example_defs =
  example_env_def port_taken_env_def interrupted_env_def no_browser_env_def denied_env_def

lemma in_use_names_port: "str_contains (str_int PORT) in_use_line"
  by (simp add: str_port in_use_line_def)

lemma responses_append: "responses (xs @ ys) = responses xs @ responses ys"
  by (induction xs rule: responses.induct) simp_all

lemma responses_map: "responses (map (\<lambda>r. EvResponse (f r)) rs) = map f rs"
  by (induction rs) simp_all

lemma lines_differ:
  "starting_line \<noteq> stopped_line" "serving_line d \<noteq> stopped_line"
  "open_line \<noteq> stopped_line" "press_line \<noteq> stopped_line"
  "starting_line \<noteq> in_use_line" "serving_line d \<noteq> in_use_line"
  "open_line \<noteq> in_use_line" "press_line \<noteq> in_use_line"
  by (simp_all add: starting_line_def serving_line_def open_line_def press_line_def
      stopped_line_def in_use_line_def)

lemma dirname_of_file:
  assumes "CHR ''/'' \<notin> set name" and "d \<noteq> []" and "last d \<noteq> CHR ''/''"
  shows "dirname (d @ CHR ''/'' # name) = d"
proof -
  have "dropWhile (\<lambda>c. c \<noteq> CHR ''/'') (rev name @ CHR ''/'' # rev d) = CHR ''/'' # rev d"
    using assms(1) by (subst dropWhile_append2) auto
  then have head: "rev (dropWhile (\<lambda>c. c \<noteq> CHR ''/'') (rev (d @ CHR ''/'' # name))) = d @ ''/''"
    by simp
  have "last d \<in> set (d @ ''/'')" using assms(2) by simp
  moreover have "\<forall>c \<in> set (replicate (length (d @ ''/'')) (CHR ''/'')). c = CHR ''/''"
    by simp
  ultimately have mixed: "d @ ''/'' \<noteq> replicate (length (d @ ''/'')) (CHR ''/'')"
    using assms(3) by metis
  have "hd (rev d) \<noteq> CHR ''/''" using assms(2,3) by (simp add: hd_rev)
  then have "dropWhile (\<lambda>c. c = CHR ''/'') (rev d) = rev d"
    using assms(2) by (cases "rev d") simp_all
  then have strip: "rstrip_slash (d @ ''/'') = d"
    by (simp add: rstrip_slash_def)
  show ?thesis
    unfolding dirname_def head Let_def using mixed strip by simp
qed

lemma example_dir [simp]:
  "dirname (abspath example_env (script_file example_env)) = ''/srv/web''"
  by (simp add: example_env_def dirname_def rstrip_slash_def)

subsection \<open>The isolation headers\<close>



text \<open>
  C6. A request whose path resolves to an existing readable file under the root
  directory is answered with status 200, the standard headers, both isolation headers
  with their exact values, and the file's bytes as the body.
\<close>

theorem existing_file_served:
  "lookup fsrv root (path r) = Some bytes \<Longrightarrow>
   handle_request fsrv root r =
     ''HTTP/1.0 200 '' @ reason fsrv 200 @ CRLF @
     concat (map (\<lambda>kv. header_line (fst kv) (snd kv)) (standard_headers fsrv 200 (path r))) @
     ''Cross-Origin-Embedder-Policy: require-corp'' @ CRLF @
     ''Cross-Origin-Opener-Policy: same-origin'' @ CRLF @ CRLF @ bytes"
  by (simp add: handle_request_def do_GET_def respond_new_handler header_block_def
      status_line_def str_200 isolation_lines_def)

theorem existing_file_served_witness:
  "lookup example_files ''/srv/web'' (path \<lparr>path = ''/index.html'', version = HTTP_1_1\<rparr>) =
     Some ''<h1>hi</h1>'' \<and>
   handle_request example_files ''/srv/web'' \<lparr>path = ''/index.html'', version = HTTP_1_1\<rparr> =
     ''HTTP/1.0 200 OK'' @ CRLF @ ''Server: SimpleHTTP/0.6'' @ CRLF @
     ''Cross-Origin-Embedder-Policy: require-corp'' @ CRLF @
     ''Cross-Origin-Opener-Policy: same-origin'' @ CRLF @ CRLF @ ''<h1>hi</h1>''"
proof -
  have found: "lookup example_files ''/srv/web''
      (path \<lparr>path = ''/index.html'', version = HTTP_1_1\<rparr>) = Some ''<h1>hi</h1>''"
    by (simp add: example_files_def)
  show ?thesis
    using found existing_file_served [OF found]
    by (simp add: example_files_def header_line_def)
qed

text \<open>
  C7. A request whose path does not resolve to an existing file under the root directory
  is answered with status 404, and the header block still carries both isolation
  headers.
\<close>

theorem missing_file_not_found:
  "lookup fsrv root (path r) = None \<Longrightarrow>
   handle_request fsrv root r =
     ''HTTP/1.0 404 '' @ reason fsrv 404 @ CRLF @
     concat (map (\<lambda>kv. header_line (fst kv) (snd kv)) (standard_headers fsrv 404 (path r))) @
     ''Cross-Origin-Embedder-Policy: require-corp'' @ CRLF @
     ''Cross-Origin-Opener-Policy: same-origin'' @ CRLF @ CRLF @ error_page fsrv 404"
  by (simp add: handle_request_def do_GET_def respond_new_handler header_block_def
      status_line_def str_404 isolation_lines_def)

theorem missing_file_not_found_witness:
  "lookup example_files ''/srv/web''
      (path \<lparr>path = ''/does-not-exist.xyz'', version = HTTP_1_0\<rparr>) = None \<and>
   handle_request example_files ''/srv/web''
      \<lparr>path = ''/does-not-exist.xyz'', version = HTTP_1_0\<rparr> =
     ''HTTP/1.0 404 File not found'' @ CRLF @ ''Server: SimpleHTTP/0.6'' @ CRLF @
     ''Cross-Origin-Embedder-Policy: require-corp'' @ CRLF @
     ''Cross-Origin-Opener-Policy: same-origin'' @ CRLF @ CRLF @ ''not found''"
proof -
  have missing: "lookup example_files ''/srv/web''
      (path \<lparr>path = ''/does-not-exist.xyz'', version = HTTP_1_0\<rparr>) = None"
    by (simp add: example_files_def)
  show ?thesis
    using missing missing_file_not_found [OF missing]
    by (simp add: example_files_def header_line_def)
qed

subsection \<open>Start-up, shutdown and failures\<close>





text \<open>
  C4. Whatever exception the browser launch raises, the run is the same as the run in
  which the launch succeeds: the same outcome of the process and the same effects,
  responses included.
\<close>

theorem browser_failure_swallowed:
  "run (E\<lparr>browser_raises := Some e\<rparr>) = run (E\<lparr>browser_raises := None\<rparr>)"
  by (simp add: script_defs split: option.splits)

theorem browser_failure_swallowed_witness:
  "run no_browser_env = run example_env \<and> fst (run no_browser_env) = Running"
proof -
  have same: "example_env\<lparr>browser_raises := None\<rparr> = example_env"
    by (simp add: example_env_def)
  have "run no_browser_env = run example_env"
    using browser_failure_swallowed
      [where E = example_env and e = "OtherException ''webbrowser.Error''"]
    by (simp add: no_browser_env_def same)
  moreover have "fst (run example_env) = Running"
    by (simp add: script_defs example_env_def)
  ultimately show ?thesis by simp
qed

text \<open>
  C5, as stated, fails: an exception raised by the browser launch is a start-up
  exception other than \<^verbatim>\<open>KeyboardInterrupt\<close> and the port-in-use \<^verbatim>\<open>OSError\<close>, and it
  is caught by the catch-all around the launch; the process keeps running.
\<close>

theorem browser_exception_is_caught:
  "other_exception (OtherException ''webbrowser.Error'') \<and>
   browser_raises no_browser_env = Some (OtherException ''webbrowser.Error'') \<and>
   fst (run no_browser_env) = Running \<and>
   fst (run no_browser_env) \<noteq> Traceback (OtherException ''webbrowser.Error'')"
  by (simp add: script_defs example_defs)

text \<open>
  C5, amended. Every exception raised outside the browser launch (by the change of
  directory, by the bind, or by the serving loop) that is neither \<^verbatim>\<open>KeyboardInterrupt\<close>
  nor the port-in-use \<^verbatim>\<open>OSError\<close> leaves the program uncaught and ends the process
  with the interpreter's traceback: neither the shutdown notice nor the port diagnostic
  is printed, and the bind is attempted at most once.
\<close>

theorem other_exceptions_propagate:
  assumes "other_exception e"
    and "chdir_raises E (dirname (abspath E (script_file E))) = Some e \<or>
         chdir_raises E (dirname (abspath E (script_file E))) = None \<and>
           (bind_raises E = Some e \<or> bind_raises E = None \<and> serve_ends E = Raised e)"
  shows "fst (run E) = Traceback e \<and>
         EvPrint stopped_line \<notin> set (trace (snd (run E))) \<and>
         EvPrint in_use_line \<notin> set (trace (snd (run E))) \<and>
         length (filter is_bind (trace (snd (run E)))) \<le> 1"
proof (cases e)
  case KeyboardInterrupt
  with assms(1) show ?thesis by simp
next
  case (OSError s)
  with assms show ?thesis
    by (cases "browser_raises E")
       (auto simp add: script_defs lines_differ lines_differ [symmetric])
next
  case (OtherException name)
  with assms show ?thesis
    by (cases "browser_raises E")
       (auto simp add: script_defs lines_differ lines_differ [symmetric])
qed

theorem other_exceptions_propagate_witness:
  "other_exception (OSError ''[Errno 13] Permission denied'') \<and>
   chdir_raises denied_env (dirname (abspath denied_env (script_file denied_env))) = None \<and>
   bind_raises denied_env = Some (OSError ''[Errno 13] Permission denied'') \<and>
   fst (run denied_env) = Traceback (OSError ''[Errno 13] Permission denied'') \<and>
   EvPrint stopped_line \<notin> set (trace (snd (run denied_env))) \<and>
   EvPrint in_use_line \<notin> set (trace (snd (run denied_env))) \<and>
   length (filter is_bind (trace (snd (run denied_env)))) \<le> 1"
proof -
  have other: "other_exception (OSError ''[Errno 13] Permission denied'')"
    by simp
  have moved: "chdir_raises denied_env
      (dirname (abspath denied_env (script_file denied_env))) = None"
    by (simp add: example_defs)
  have denied: "bind_raises denied_env = Some (OSError ''[Errno 13] Permission denied'')"
    by (simp add: example_defs)
  have place: "chdir_raises denied_env
        (dirname (abspath denied_env (script_file denied_env))) =
        Some (OSError ''[Errno 13] Permission denied'') \<or>
      chdir_raises denied_env (dirname (abspath denied_env (script_file denied_env))) = None \<and>
        (bind_raises denied_env = Some (OSError ''[Errno 13] Permission denied'') \<or>
         bind_raises denied_env = None \<and>
           serve_ends denied_env = Raised (OSError ''[Errno 13] Permission denied''))"
    using moved denied by simp
  show ?thesis
    using other moved denied other_exceptions_propagate [OF other place]
    by simp
qed

text \<open>
  C8. Whenever the script gets as far as binding, it binds host \<^verbatim>\<open>""\<close> (all
  interfaces) and port 8080, once; the working directory, from which every response is
  served, is the directory part of the script's absolute path, that is the directory
  that contains the script; and neither the command line nor the environment variables
  change anything of the run.
\<close>

theorem fixed_port_and_root:
  assumes "chdir_raises E (dirname (abspath E (script_file E))) = None"
    and "bind_raises E = None"
  shows "take 2 (trace (snd (run E))) =
           [EvChdir (dirname (abspath E (script_file E))), EvBind [] 8080] \<and>
         filter is_bind (trace (snd (run E))) = [EvBind [] 8080] \<and>
         cwd (snd (run E)) = dirname (abspath E (script_file E)) \<and>
         (\<forall>d name. abspath E (script_file E) = d @ ''/'' @ name \<and> CHR ''/'' \<notin> set name \<and>
            d \<noteq> [] \<and> last d \<noteq> CHR ''/'' \<longrightarrow> cwd (snd (run E)) = d) \<and>
         responses (trace (snd (run E))) =
           map (handle_request (files E) (dirname (abspath E (script_file E)))) (requests E) \<and>
         run (E\<lparr>argv := a, environ := v\<rparr>) = run E"
proof (cases "serve_ends E")
  case (Raised e)
  with assms show ?thesis
    by (cases e; cases "browser_raises E")
       (auto simp add: script_defs PORT_def responses_append responses_map comp_def
          dirname_of_file)
next
  case Normal
  with assms show ?thesis
    by (cases "browser_raises E")
       (auto simp add: script_defs PORT_def responses_append responses_map comp_def
          dirname_of_file)
next
  case (Exits n)
  with assms show ?thesis
    by (cases "browser_raises E")
       (auto simp add: script_defs PORT_def responses_append responses_map comp_def
          dirname_of_file)
next
  case Forever
  with assms show ?thesis
    by (cases "browser_raises E")
       (auto simp add: script_defs PORT_def responses_append responses_map comp_def
          dirname_of_file)
qed

theorem fixed_port_and_root_witness:
  "chdir_raises example_env (dirname (abspath example_env (script_file example_env))) = None \<and>
   bind_raises example_env = None \<and>
   take 2 (trace (snd (run example_env))) = [EvChdir ''/srv/web'', EvBind [] 8080] \<and>
   filter is_bind (trace (snd (run example_env))) = [EvBind [] 8080] \<and>
   cwd (snd (run example_env)) = ''/srv/web'' \<and>
   responses (trace (snd (run example_env))) =
     [handle_request example_files ''/srv/web'' \<lparr>path = ''/index.html'', version = HTTP_1_1\<rparr>] \<and>
   run (example_env\<lparr>argv := [''serve.py'', ''--port'', ''9000''],
                    environ := [''PORT'' \<mapsto> ''9000'']\<rparr>) = run example_env"
proof -
  have moved: "chdir_raises example_env
      (dirname (abspath example_env (script_file example_env))) = None"
    by (simp add: example_env_def)
  have bound: "bind_raises example_env = None"
    by (simp add: example_env_def)
  have reqs: "requests example_env = [\<lparr>path = ''/index.html'', version = HTTP_1_1\<rparr>]"
    and fs: "files example_env = example_files"
    by (simp_all add: example_env_def)
  show ?thesis
    using moved bound
      fixed_port_and_root [OF moved bound,
        where a = "[''serve.py'', ''--port'', ''9000'']" and v = "[''PORT'' \<mapsto> ''9000'']"]
    by (simp add: reqs fs)
qed

text \<open>
  C9. In every run the effects come in the fixed order: the listener is bound only after
  the working directory has been changed, the browser launch is attempted only after the
  listener has been bound, and serving (the loop and every response) begins only after
  the browser launch has been attempted.
\<close>

theorem startup_order:
  "only_after is_chdir is_bind (trace (snd (run E))) \<and>
   only_after is_bind is_browser (trace (snd (run E))) \<and>
   only_after is_browser is_serving (trace (snd (run E)))"
proof (cases "chdir_raises E (dirname (abspath E (script_file E)))")
  case (Some e)
  then show ?thesis by (simp add: script_defs)
next
  case moved: None
  show ?thesis
  proof (cases "bind_raises E")
    case (Some e)
    with moved show ?thesis by (cases e) (simp_all add: script_defs)
  next
    case bound: None
    show ?thesis
    proof (cases "serve_ends E")
      case (Raised e)
      with moved bound show ?thesis
        by (cases e; cases "browser_raises E") (simp_all add: script_defs)
    next
      case Normal
      with moved bound show ?thesis by (cases "browser_raises E") (simp_all add: script_defs)
    next
      case (Exits n)
      with moved bound show ?thesis by (cases "browser_raises E") (simp_all add: script_defs)
    next
      case Forever
      with moved bound show ?thesis by (cases "browser_raises E") (simp_all add: script_defs)
    qed
  qed
qed

theorem startup_order_witness:
  "only_after is_chdir is_bind (trace (snd (run example_env))) \<and>
   only_after is_bind is_browser (trace (snd (run example_env))) \<and>
   only_after is_browser is_serving (trace (snd (run example_env))) \<and>
   filter (\<lambda>x. is_chdir x \<or> is_bind x \<or> is_browser x \<or> is_serving x)
       (trace (snd (run example_env))) =
     [EvChdir ''/srv/web'', EvBind [] 8080, EvOpenBrowser ''http://localhost:8080'',
      EvServeForever,
      EvResponse (handle_request example_files ''/srv/web''
        \<lparr>path = ''/index.html'', version = HTTP_1_1\<rparr>)]"
  using startup_order [of example_env]
  by (simp add: script_defs example_env_def dirname_def rstrip_slash_def PORT_def base_url_def
      str_port [unfolded PORT_def])

text \<open>
  C10. For an \<^verbatim>\<open>OSError\<close> caught by the outer \<^verbatim>\<open>try\<close> (raised by the bind or by the
  serving loop), the diagnostic and exit status 1 are produced exactly when its text
  contains "Address already in use"; with any other text the error is raised again,
  the process ends with the traceback, and the diagnostic is not printed.
\<close>

theorem in_use_substring_decides:
  assumes "chdir_raises E (dirname (abspath E (script_file E))) = None"
    and "bind_raises E = Some (OSError s) \<or>
         bind_raises E = None \<and> serve_ends E = Raised (OSError s)"
  shows "if str_contains ''Address already in use'' s
         then fst (run E) = Exited 1 \<and> last (trace (snd (run E))) = EvPrint in_use_line
         else fst (run E) = Traceback (OSError s) \<and>
              EvPrint in_use_line \<notin> set (trace (snd (run E)))"
  using assms
  by (cases "browser_raises E")
     (auto simp add: script_defs lines_differ lines_differ [symmetric])

theorem in_use_substring_decides_witness:
  "chdir_raises denied_env (dirname (abspath denied_env (script_file denied_env))) = None \<and>
   bind_raises denied_env = Some (OSError ''[Errno 13] Permission denied'') \<and>
   \<not> str_contains ''Address already in use'' ''[Errno 13] Permission denied'' \<and>
   fst (run denied_env) = Traceback (OSError ''[Errno 13] Permission denied'') \<and>
   EvPrint in_use_line \<notin> set (trace (snd (run denied_env)))"
proof -
  have moved: "chdir_raises denied_env
      (dirname (abspath denied_env (script_file denied_env))) = None"
    by (simp add: example_defs)
  have denied: "bind_raises denied_env = Some (OSError ''[Errno 13] Permission denied'') \<or>
      bind_raises denied_env = None \<and>
        serve_ends denied_env = Raised (OSError ''[Errno 13] Permission denied'')"
    by (simp add: example_defs)
  have msg: "\<not> str_contains ''Address already in use'' ''[Errno 13] Permission denied''"
    by simp
  show ?thesis
    using moved msg in_use_substring_decides [OF moved denied]
    by (simp add: example_defs)
qed

end
